theory Spec2Isabelle
  imports
    Complex_Main
    "HOL-Library.AList"
    "HOL-Library.Char_ord"
    "HOL-Library.List_Lexorder"
    "HOL-Library.Product_Lexorder"
begin

section \<open>The persisted document and its construction-time repair\<close>

text \<open>
  \<^verbatim>\<open>src/memory.py\<close> keeps one JSON document in one file. The values that
  \<^verbatim>\<open>json.loads\<close> produces are modelled by \<open>json\<close>: a Python \<^verbatim>\<open>dict\<close> is an
  association list in insertion order, an \<^verbatim>\<open>int\<close> is unbounded, and a finite
  \<^verbatim>\<open>float\<close> is the rational it denotes (the rounding of IEEE arithmetic and the
  non-finite floats are outside the model).
\<close>

datatype json =
    JNull
  | JBool bool
  | JInt int
  | JFloat rat
  | JStr string
  | JList "json list"
  | JObj "(string \<times> json) list"


datatype error = FileNotFoundError | JSONDecodeError | TypeError | ValueError











section \<open>Question identity\<close>

text \<open>
  \<^verbatim>\<open>question_id\<close> normalizes the prompt with \<^verbatim>\<open>" ".join(prompt.strip().split()).lower()\<close>
  and hashes the result. Strings are lists of 8-bit characters; the model covers ASCII
  text: the whitespace of \<^verbatim>\<open>str.split\<close> and \<^verbatim>\<open>str.strip\<close> is the ASCII whitespace
  (codes 9 to 13, 28 to 31 and 32), and \<^verbatim>\<open>str.lower\<close> maps \<open>A\<close> to \<open>Z\<close> onto
  \<open>a\<close> to \<open>z\<close> and leaves every other character alone.
\<close>

definition is_space :: "char \<Rightarrow> bool" where
  "is_space c = (of_char c \<in> {9, 10, 11, 12, 13, 28, 29, 30, 31, 32 :: nat})"

definition lower_char :: "char \<Rightarrow> char" where
  "lower_char c =
     (if 65 \<le> (of_char c :: nat) \<and> (of_char c :: nat) \<le> 90
      then char_of (of_char c + 32 :: nat) else c)"

definition lower :: "string \<Rightarrow> string" where
  "lower s = map lower_char s"

definition strip :: "string \<Rightarrow> string" where
  "strip s = rev (dropWhile is_space (rev (dropWhile is_space s)))"

text \<open>
  \<^verbatim>\<open>str.split()\<close> without a separator: the scan keeps the word read so far (reversed)
  in \<open>w\<close>, ends it at a whitespace character and never yields an empty word.
\<close>

fun split_from :: "string \<Rightarrow> string \<Rightarrow> string list" where
  "split_from w [] = (if w = [] then [] else [rev w])"
| "split_from w (c # cs) =
     (if is_space c then (if w = [] then split_from [] cs else rev w # split_from [] cs)
      else split_from (c # w) cs)"

definition split_ws :: "string \<Rightarrow> string list" where
  "split_ws s = split_from [] s"

fun join :: "string \<Rightarrow> string list \<Rightarrow> string" where
  "join sep [] = []"
| "join sep [w] = w"
| "join sep (w # v # ws) = w @ sep @ join sep (v # ws)"

definition normalized :: "string \<Rightarrow> string" where
  "normalized prompt = lower (join '' '' (split_ws (strip prompt)))"

text \<open>
  \<^verbatim>\<open>hashlib.sha256(s.encode("utf-8")).hexdigest()\<close> is a library function; the model
  takes it as the parameter \<open>sha256_hex\<close>, and \<^verbatim>\<open>[:16]\<close> keeps its first 16 characters.
\<close>

definition question_id :: "(string \<Rightarrow> string) \<Rightarrow> string \<Rightarrow> string" where
  "question_id sha256_hex prompt = take 16 (sha256_hex (normalized prompt))"


section \<open>Python conversions\<close>

text \<open>
  \<^verbatim>\<open>int(x)\<close> on the values a caller can pass: an \<^verbatim>\<open>int\<close> is itself, a
  \<^verbatim>\<open>bool\<close> is 0 or 1, a \<^verbatim>\<open>float\<close> is truncated towards zero, a \<^verbatim>\<open>str\<close> is
  read as a decimal literal (surrounding whitespace, one optional sign, digits with
  single underscores between them) or raises \<^verbatim>\<open>ValueError\<close>, and \<^verbatim>\<open>None\<close>, a
  list and a dictionary raise \<^verbatim>\<open>TypeError\<close>.
\<close>

definition is_digit :: "char \<Rightarrow> bool" where
  "is_digit c = (48 \<le> (of_char c :: nat) \<and> (of_char c :: nat) \<le> 57)"

fun digits_value :: "int \<Rightarrow> bool \<Rightarrow> string \<Rightarrow> int option" where
  "digits_value acc seen [] = (if seen then Some acc else None)"
| "digits_value acc seen (c # cs) =
     (if is_digit c then digits_value (10 * acc + (int (of_char c) - 48)) True cs
      else if c = CHR ''_'' \<and> seen \<and> cs \<noteq> [] \<and> is_digit (hd cs) then digits_value acc seen cs
      else None)"

definition int_of_str :: "string \<Rightarrow> int option" where
  "int_of_str s =
     (case strip s of
        [] \<Rightarrow> None
      | c # cs \<Rightarrow>
          if c = CHR ''-'' then map_option uminus (digits_value 0 False cs)
          else if c = CHR ''+'' then digits_value 0 False cs
          else digits_value 0 False (c # cs))"

fun py_int :: "json \<Rightarrow> error + int" where
  "py_int (JInt n) = Inr n"
| "py_int (JBool b) = Inr (if b then 1 else 0)"
| "py_int (JFloat r) = Inr (if 0 \<le> r then \<lfloor>r\<rfloor> else \<lceil>r\<rceil>)"
| "py_int (JStr s) = (case int_of_str s of Some n \<Rightarrow> Inr n | None \<Rightarrow> Inl ValueError)"
| "py_int JNull = Inl TypeError"
| "py_int (JList xs) = Inl TypeError"
| "py_int (JObj kvs) = Inl TypeError"

text \<open>
  \<^verbatim>\<open>round(x)\<close> of Python 3 rounds to the nearest integer and a tie to the even
  one. The quotient it is applied to is taken exactly.
\<close>

definition py_round :: "rat \<Rightarrow> int" where
  "py_round x =
     (let f = \<lfloor>x\<rfloor>; d = x - of_int f
      in if d < 1 / 2 then f else if 1 / 2 < d then f + 1 else if even f then f else f + 1)"

section \<open>The document of the logging and query operations\<close>

text \<open>
  After construction the three top-level keys hold containers; the logging and query
  operations are modelled on documents whose records have the fields, and the field
  types, that \<^verbatim>\<open>log_attempt\<close> and \<^verbatim>\<open>log_session\<close> write (section 3 of the
  spec). A top-level key may still be absent, as the source's \<^verbatim>\<open>setdefault\<close> and
  \<^verbatim>\<open>get(key, default)\<close> provide for. A field that the code writes as \<^verbatim>\<open>None\<close> or
  leaves out is an \<open>option\<close>. The \<^verbatim>\<open>questions\<close> dictionary is an association list
  in insertion order.
\<close>

record attempt =
  a_timestamp :: string
  a_topic :: string
  a_question_id :: string
  a_prompt :: string
  a_student_answer :: string
  a_correct :: bool
  a_response_ms :: "int option"

record question =
  q_prompt :: string
  q_times_asked :: int
  q_last_answer :: "string option"
  q_last_correct :: "bool option"
  q_last_timestamp :: "string option"
  q_topics :: "string list"
  q_last_response_ms :: "int option"
  q_avg_response_ms :: "int option"

record session =
  s_timestamp :: string
  s_topic :: string
  s_score :: rat
  s_details :: json

record document =
  d_sessions :: "session list option"
  d_attempts :: "attempt list option"
  d_questions :: "(string \<times> question) list option"


definition get_attempts :: "document \<Rightarrow> attempt list" where
  "get_attempts data = (case d_attempts data of None \<Rightarrow> [] | Some xs \<Rightarrow> xs)"

definition get_questions :: "document \<Rightarrow> (string \<times> question) list" where
  "get_questions data = (case d_questions data of None \<Rightarrow> [] | Some kvs \<Rightarrow> kvs)"


section \<open>Logging an attempt\<close>

text \<open>
  \<^verbatim>\<open>log_attempt\<close> reads the document, converts \<^verbatim>\<open>response_ms\<close> when one is given
  (line 85, and again with the same result at line 111), appends the attempt, updates
  the aggregate of the question and writes the document back (line 121). An exception
  leaves the function before the write, so the document on disk is the one read. The
  result pairs the outcome with the document on disk afterwards.
\<close>

definition int_response_ms :: "json option \<Rightarrow> error + int option" where
  "int_response_ms response_ms =
     (case response_ms of
        None \<Rightarrow> Inr None
      | Some v \<Rightarrow> (case py_int v of Inl e \<Rightarrow> Inl e | Inr ms \<Rightarrow> Inr (Some ms)))"

definition new_question :: "string \<Rightarrow> question" where
  "new_question prompt =
     \<lparr>q_prompt = prompt, q_times_asked = 0, q_last_answer = None, q_last_correct = None,
      q_last_timestamp = None, q_topics = [], q_last_response_ms = None,
      q_avg_response_ms = None\<rparr>"

definition update_question ::
  "string \<Rightarrow> string \<Rightarrow> string \<Rightarrow> bool \<Rightarrow> int option \<Rightarrow> question \<Rightarrow> question" where
  "update_question ts topic student_answer correct ms qrec =
     (let prev_n = q_times_asked qrec;
          qrec1 = qrec\<lparr>q_times_asked := prev_n + 1,
                        q_last_answer := Some student_answer,
                        q_last_correct := Some correct,
                        q_last_timestamp := Some ts,
                        q_topics := sort (remdups (topic # q_topics qrec))\<rparr>
      in case ms of
           None \<Rightarrow> qrec1
         | Some m \<Rightarrow>
             qrec1\<lparr>q_last_response_ms := Some m,
                   q_avg_response_ms :=
                     (case q_avg_response_ms qrec1 of
                        Some prev_avg \<Rightarrow>
                          if prev_n > 0
                          then Some (py_round ((of_int prev_avg * of_int prev_n + of_int m)
                                                / of_int (prev_n + 1)))
                          else Some m
                      | None \<Rightarrow> Some m)\<rparr>)"

definition log_attempt ::
  "(string \<Rightarrow> string) \<Rightarrow> string \<Rightarrow> string \<Rightarrow> string \<Rightarrow> string \<Rightarrow> bool \<Rightarrow> json option \<Rightarrow>
   document \<Rightarrow> (error + unit) \<times> document" where
  "log_attempt sha256_hex ts topic prompt student_answer correct response_ms data =
     (let qid = question_id sha256_hex prompt
      in case int_response_ms response_ms of
           Inl e \<Rightarrow> (Inl e, data)
         | Inr ms \<Rightarrow>
             (let attempt_entry =
                    \<lparr>a_timestamp = ts, a_topic = topic, a_question_id = qid, a_prompt = prompt,
                     a_student_answer = student_answer, a_correct = correct,
                     a_response_ms = ms\<rparr>;
                  qrec = (case map_of (get_questions data) qid of
                            Some r \<Rightarrow> r
                          | None \<Rightarrow> new_question prompt)
              in (Inr (),
                  data\<lparr>d_attempts := Some (get_attempts data @ [attempt_entry]),
                       d_questions := Some (AList.update qid
                          (update_question ts topic student_answer correct ms qrec)
                          (get_questions data))\<rparr>)))"

section \<open>Queries\<close>

definition topic_match :: "string option \<Rightarrow> question \<Rightarrow> bool" where
  "topic_match topic rec = (case topic of None \<Rightarrow> True | Some t \<Rightarrow> t \<in> set (q_topics rec))"

definition get_excluded_prompts :: "string \<Rightarrow> string option \<Rightarrow> document \<Rightarrow> string list" where
  "get_excluded_prompts mode topic data =
     (let questions = map snd (get_questions data)
      in if mode = ''correct''
         then map q_prompt
                (filter (\<lambda>rec. q_last_correct rec = Some True \<and> topic_match topic rec) questions)
         else map q_prompt (filter (topic_match topic) questions))"



text \<open>
  \<^verbatim>\<open>get_frequently_missed\<close>: \<open>tally\<close> is one iteration of the loop that fills
  \<^verbatim>\<open>stats\<close>, \<open>item_of\<close> builds one output record, \<open>sort_reverse\<close> is the stable
  \<^verbatim>\<open>list.sort(key=..., reverse=True)\<close> (equal keys keep their order), and
  \<open>slice_to\<close> is \<^verbatim>\<open>items[:limit]\<close>, where a negative \<^verbatim>\<open>limit\<close> counts from the
  end of the list.
\<close>

record stat =
  st_prompt :: string
  st_attempts :: int
  st_correct :: int
  st_incorrect :: int
  st_sum_ms :: int
  st_ms_count :: int

record missed =
  m_prompt :: string
  m_attempts :: int
  m_correct :: int
  m_incorrect :: int
  m_error_rate :: rat
  m_avg_response_ms :: "int option"

definition tally :: "(string \<times> stat) list \<Rightarrow> attempt \<Rightarrow> (string \<times> stat) list" where
  "tally stats a =
     (let qid = a_question_id a
      in if qid = [] then stats
         else
           (let st = (case map_of stats qid of
                        Some s \<Rightarrow> s
                      | None \<Rightarrow> \<lparr>st_prompt = a_prompt a, st_attempts = 0, st_correct = 0,
                                 st_incorrect = 0, st_sum_ms = 0, st_ms_count = 0\<rparr>);
                st1 = st\<lparr>st_attempts := st_attempts st + 1\<rparr>;
                st2 = (if a_correct a then st1\<lparr>st_correct := st_correct st1 + 1\<rparr>
                       else st1\<lparr>st_incorrect := st_incorrect st1 + 1\<rparr>);
                st3 = (case a_response_ms a of
                         Some ms \<Rightarrow> st2\<lparr>st_sum_ms := st_sum_ms st2 + ms,
                                        st_ms_count := st_ms_count st2 + 1\<rparr>
                       | None \<Rightarrow> st2)
            in AList.update qid st3 stats))"

definition item_of :: "stat \<Rightarrow> missed" where
  "item_of st =
     \<lparr>m_prompt = st_prompt st, m_attempts = st_attempts st, m_correct = st_correct st,
      m_incorrect = st_incorrect st,
      m_error_rate = of_int (st_incorrect st) / of_int (st_attempts st),
      m_avg_response_ms =
        (if st_ms_count st > 0
         then Some (py_round (of_int (st_sum_ms st) / of_int (st_ms_count st)))
         else None)\<rparr>"

definition sort_key_of :: "missed \<Rightarrow> rat \<times> int \<times> int" where
  "sort_key_of x =
     (m_error_rate x, m_attempts x,
      (case m_avg_response_ms x of None \<Rightarrow> 0 | Some ms \<Rightarrow> ms))"

definition sort_reverse :: "('a \<Rightarrow> 'k::linorder) \<Rightarrow> 'a list \<Rightarrow> 'a list" where
  "sort_reverse key xs = rev (sort_key key (rev xs))"

definition slice_to :: "int \<Rightarrow> 'a list \<Rightarrow> 'a list" where
  "slice_to n xs =
     (if 0 \<le> n then take (nat n) xs else take (length xs - nat (- n)) xs)"

definition get_frequently_missed :: "string \<Rightarrow> int \<Rightarrow> int \<Rightarrow> document \<Rightarrow> missed list" where
  "get_frequently_missed topic min_attempts limit data =
     (let attempts = filter (\<lambda>a. a_topic a = topic) (get_attempts data)
      in if attempts = [] then []
         else
           (let stats = foldl tally [] attempts;
                items = map (\<lambda>(qid, st). item_of st)
                          (filter (\<lambda>(qid, st). \<not> (st_attempts st < min_attempts \<or> st_incorrect st = 0))
                             stats)
            in slice_to limit (sort_reverse sort_key_of items)))"

section \<open>Definitions that state the claims\<close>

text \<open>
  A sequence of \<^verbatim>\<open>log_attempt\<close> calls with one prompt (claim C1): each call brings
  its clock reading, topic, answer, correctness and optional integer response time.
\<close>

record call =
  c_ts :: string
  c_topic :: string
  c_student_answer :: string
  c_correct :: bool
  c_response_ms :: "int option"

definition log_attempts ::
  "(string \<Rightarrow> string) \<Rightarrow> string \<Rightarrow> call list \<Rightarrow> document \<Rightarrow> document" where
  "log_attempts sha256_hex prompt calls data =
     foldl (\<lambda>d c. snd (log_attempt sha256_hex (c_ts c) (c_topic c) prompt (c_student_answer c)
                        (c_correct c) (map_option JInt (c_response_ms c)) d))
       data calls"





text \<open>
  What claim C5 says a returned record aggregates: \<open>n\<close> counts the attempts of the
  topic with the question identifier \<open>qid\<close>, \<open>k\<close> those of them that were not
  correct.
\<close>

definition topic_attempts :: "string \<Rightarrow> string \<Rightarrow> document \<Rightarrow> attempt list" where
  "topic_attempts topic qid data =
     filter (\<lambda>a. a_question_id a = qid) (filter (\<lambda>a. a_topic a = topic) (get_attempts data))"

definition descending :: "missed list \<Rightarrow> bool" where
  "descending items = sorted_wrt (\<lambda>x y. sort_key_of x \<ge> sort_key_of y) items"


text \<open>A document with two question aggregates and no attempts, for concrete instances.\<close>

definition two_questions :: document where
  "two_questions =
     \<lparr>d_sessions = Some [], d_attempts = Some [],
      d_questions = Some
        [(''q1'', (new_question ''What is entropy?'')\<lparr>q_topics := [''Thermo'']\<rparr>),
         (''q2'', (new_question ''What is a ring?'')\<lparr>q_topics := [''Algebra'']\<rparr>)]\<rparr>"

text \<open>
  The invariant of the loop that fills \<^verbatim>\<open>stats\<close>: after the attempts \<open>atts\<close>, the
  entry of \<open>qid\<close> is absent when no attempt has this identifier (or the identifier is
  empty and skipped), and otherwise counts the attempts with it and those of them that
  were not correct.
\<close>

definition tallied :: "attempt list \<Rightarrow> string \<Rightarrow> stat option \<Rightarrow> bool" where
  "tallied atts qid entry =
     (let mine = filter (\<lambda>a. a_question_id a = qid) atts
      in case entry of
           None \<Rightarrow> qid = [] \<or> mine = []
         | Some st \<Rightarrow>
             qid \<noteq> [] \<and> st_attempts st = int (length mine) \<and>
             st_incorrect st = int (length (filter (\<lambda>a. \<not> a_correct a) mine)))"

text \<open>
  Concrete runs, for the instances and counterexamples below: the empty document, calls
  for the topic \<^verbatim>\<open>Thermo\<close> with and without a response time, the three attempts of
  the end-to-end example of the spec (section 8), and a document in which two
  different questions were each missed once. The hash function of these runs is the
  identity.
\<close>

definition no_document :: document where
  "no_document = \<lparr>d_sessions = Some [], d_attempts = Some [], d_questions = Some []\<rparr>"

definition timed :: "string \<Rightarrow> bool \<Rightarrow> int \<Rightarrow> call" where
  "timed ts correct ms =
     \<lparr>c_ts = ts, c_topic = ''Thermo'', c_student_answer = ''an answer'', c_correct = correct,
      c_response_ms = Some ms\<rparr>"



definition thermo_calls :: "call list" where
  "thermo_calls = [timed ''t1'' False 1000, timed ''t2'' False 2000, timed ''t3'' True 3000]"

definition thermo_document :: document where
  "thermo_document = log_attempts (\<lambda>s. s) ''What is entropy?'' thermo_calls no_document"






section \<open>Properties of the question identity\<close>














section \<open>Properties of the queries and of logging\<close>

text \<open>
  Claim C7. For every document and every topic filter (none included), each prompt
  that \<^verbatim>\<open>get_excluded_prompts\<close> returns in mode \<^verbatim>\<open>"correct"\<close> is also returned in
  mode \<^verbatim>\<open>"all"\<close>.
\<close>

theorem get_excluded_prompts_correct_in_all:
  "set (get_excluded_prompts ''correct'' topic data)
     \<subseteq> set (get_excluded_prompts ''all'' topic data)"
  by (auto simp: get_excluded_prompts_def)

text \<open>
  Claim C10. Every mode other than \<^verbatim>\<open>"correct"\<close>, recognised or not, gives what mode
  \<^verbatim>\<open>"all"\<close> gives: the prompts of all question aggregates that match the topic
  filter, in the order of the question index.
\<close>

theorem get_excluded_prompts_other_modes:
  "mode \<noteq> ''correct'' \<Longrightarrow>
     get_excluded_prompts mode topic data = get_excluded_prompts ''all'' topic data \<and>
     get_excluded_prompts mode topic data =
       map q_prompt (filter (topic_match topic) (map snd (get_questions data)))"
  by (simp add: get_excluded_prompts_def)

theorem get_excluded_prompts_other_modes_witness:
  "''everything'' \<noteq> ''correct'' \<and>
   get_excluded_prompts ''everything'' (Some ''Thermo'') two_questions
     = get_excluded_prompts ''all'' (Some ''Thermo'') two_questions \<and>
   get_excluded_prompts ''everything'' (Some ''Thermo'') two_questions = [''What is entropy?'']"
proof -
  have ne: "''everything'' \<noteq> ''correct''"
    by simp
  have "map q_prompt (filter (topic_match (Some ''Thermo'')) (map snd (get_questions two_questions)))
      = [''What is entropy?'']"
    by (simp add: two_questions_def get_questions_def topic_match_def new_question_def)
  then show ?thesis
    using ne get_excluded_prompts_other_modes[OF ne, of "Some ''Thermo''" two_questions]
    by metis
qed



text \<open>
  Claim C8. When \<^verbatim>\<open>response_ms\<close> is given and \<^verbatim>\<open>int(response_ms)\<close> raises,
  \<^verbatim>\<open>log_attempt\<close> raises that error to its caller and the document on disk, with
  its attempts, questions and sessions, is the one from before the call.
\<close>

theorem log_attempt_rejects_before_write:
  "py_int v = Inl e \<Longrightarrow>
     log_attempt H ts topic prompt student_answer correct (Some v) data = (Inl e, data)"
  by (simp add: log_attempt_def int_response_ms_def)

theorem log_attempt_rejects_before_write_witness:
  "py_int (JStr ''fast'') = Inl ValueError \<and>
   (\<forall>H ts topic prompt student_answer correct data.
      log_attempt H ts topic prompt student_answer correct (Some (JStr ''fast'')) data
        = (Inl ValueError, data))"
proof -
  have v: "py_int (JStr ''fast'') = Inl ValueError"
    by code_simp
  show ?thesis
    using v log_attempt_rejects_before_write[OF v] by blast
qed



section \<open>Properties of the frequently missed questions\<close>

lemma tally_distinct: "distinct (map fst stats) \<Longrightarrow> distinct (map fst (tally stats a))"
  by (simp add: tally_def Let_def distinct_update)

lemma tally_tallied:
  assumes "\<And>qid. tallied atts qid (map_of stats qid)"
  shows "tallied (atts @ [a]) qid (map_of (tally stats a) qid)"
proof (cases "qid = a_question_id a \<and> qid \<noteq> []")
  case False
  then have "map_of (tally stats a) qid = map_of stats qid"
    by (auto simp: tally_def Let_def update_conv')
  moreover have "qid = [] \<or> filter (\<lambda>a. a_question_id a = qid) (atts @ [a]) =
      filter (\<lambda>a. a_question_id a = qid) atts"
    using False by auto
  ultimately show ?thesis
    using assms[of qid] by (auto simp: tallied_def Let_def split: option.splits)
next
  case True
  then show ?thesis
    using assms[of qid]
    by (auto simp: tally_def Let_def update_conv' tallied_def filter_empty_conv
        split: option.splits)
qed

lemma foldl_tally:
  "distinct (map fst (foldl tally [] atts)) \<and>
   (\<forall>qid. tallied atts qid (map_of (foldl tally [] atts) qid))"
proof (induction atts rule: rev_induct)
  case Nil
  then show ?case by (simp add: tallied_def)
next
  case (snoc a atts)
  then show ?case by (simp add: tally_distinct tally_tallied)
qed

lemma set_slice_to: "set (slice_to n xs) \<subseteq> set xs"
  by (auto simp: slice_to_def dest: in_set_takeD)

lemma set_sort_reverse: "set (sort_reverse key xs) = set xs"
  by (simp add: sort_reverse_def)

lemma get_frequently_missed_from_stats:
  assumes "r \<in> set (get_frequently_missed topic min_attempts limit data)"
  shows "\<exists>qid st. map_of (foldl tally [] (filter (\<lambda>a. a_topic a = topic) (get_attempts data))) qid = Some st \<and>
           r = item_of st \<and> min_attempts \<le> st_attempts st \<and> st_incorrect st \<noteq> 0"
proof -
  let ?stats = "foldl tally [] (filter (\<lambda>a. a_topic a = topic) (get_attempts data))"
  have "r \<in> set (map (\<lambda>(qid, st). item_of st)
          (filter (\<lambda>(qid, st). \<not> (st_attempts st < min_attempts \<or> st_incorrect st = 0)) ?stats))"
    using assms set_slice_to[of limit "sort_reverse sort_key_of (map (\<lambda>(qid, st). item_of st)
          (filter (\<lambda>(qid, st). \<not> (st_attempts st < min_attempts \<or> st_incorrect st = 0)) ?stats))"]
    by (auto simp: get_frequently_missed_def Let_def set_sort_reverse split: if_splits)
  then obtain qid st where "(qid, st) \<in> set ?stats" "r = item_of st"
    "min_attempts \<le> st_attempts st" "st_incorrect st \<noteq> 0"
    by auto
  moreover have "distinct (map fst ?stats)" using foldl_tally by blast
  ultimately show ?thesis by (metis map_of_is_SomeI)
qed

text \<open>
  Claim C5. Whatever the topic, \<^verbatim>\<open>min_attempts\<close>, \<^verbatim>\<open>limit\<close> and the document are,
  every record that \<^verbatim>\<open>get_frequently_missed\<close> returns has a non-zero
  \<^verbatim>\<open>incorrect\<close> count and at least \<^verbatim>\<open>min_attempts\<close> attempts, and these two numbers
  are the number of attempts of the topic with one question identifier and the number
  of those that were not correct.
\<close>

theorem get_frequently_missed_filters:
  "\<forall>r \<in> set (get_frequently_missed topic min_attempts limit data).
     m_incorrect r \<noteq> 0 \<and> min_attempts \<le> m_attempts r \<and>
     (\<exists>qid. qid \<noteq> [] \<and>
        m_attempts r = int (length (topic_attempts topic qid data)) \<and>
        m_incorrect r = int (length (filter (\<lambda>a. \<not> a_correct a) (topic_attempts topic qid data))))"
proof
  fix r
  assume "r \<in> set (get_frequently_missed topic min_attempts limit data)"
  then obtain qid st where
    st: "map_of (foldl tally [] (filter (\<lambda>a. a_topic a = topic) (get_attempts data))) qid = Some st"
    and r: "r = item_of st" "min_attempts \<le> st_attempts st" "st_incorrect st \<noteq> 0"
    using get_frequently_missed_from_stats by blast
  have "tallied (filter (\<lambda>a. a_topic a = topic) (get_attempts data)) qid (Some st)"
    using foldl_tally[of "filter (\<lambda>a. a_topic a = topic) (get_attempts data)"] st by metis
  then show "m_incorrect r \<noteq> 0 \<and> min_attempts \<le> m_attempts r \<and>
     (\<exists>qid. qid \<noteq> [] \<and>
        m_attempts r = int (length (topic_attempts topic qid data)) \<and>
        m_incorrect r = int (length (filter (\<lambda>a. \<not> a_correct a) (topic_attempts topic qid data))))"
    using r by (auto simp: item_of_def tallied_def topic_attempts_def Let_def)
qed

theorem get_frequently_missed_filters_witness:
  "get_frequently_missed ''Thermo'' 1 5 thermo_document =
     [\<lparr>m_prompt = ''What is entropy?'', m_attempts = 3, m_correct = 1, m_incorrect = 2,
       m_error_rate = 2 / 3, m_avg_response_ms = Some 2000\<rparr>] \<and>
   (\<exists>qid. qid \<noteq> [] \<and>
      (3 :: int) = int (length (topic_attempts ''Thermo'' qid thermo_document)) \<and>
      (2 :: int) = int (length (filter (\<lambda>a. \<not> a_correct a)
                                  (topic_attempts ''Thermo'' qid thermo_document))))"
proof -
  have ev: "get_frequently_missed ''Thermo'' 1 5 thermo_document =
     [\<lparr>m_prompt = ''What is entropy?'', m_attempts = 3, m_correct = 1, m_incorrect = 2,
       m_error_rate = 2 / 3, m_avg_response_ms = Some 2000\<rparr>]"
    by code_simp
  show ?thesis
    using ev get_frequently_missed_filters[of "''Thermo''" 1 5 thermo_document]
    by simp
qed

text \<open>
  The order and the length of the result (claim C6): the list is in descending order of
  the key, and a limit that is not negative bounds its length.
\<close>

lemma sort_reverse_descending: "sorted_wrt (\<lambda>x y. key x \<ge> key y) (sort_reverse key xs)"
proof -
  have "sorted (map key (sort_key key (rev xs)))" by (rule sorted_sort_key)
  then have "sorted_wrt (\<lambda>x y. key x \<le> key y) (sort_key key (rev xs))"
    by (simp add: sorted_map)
  then show ?thesis
    by (simp add: sort_reverse_def sorted_wrt_rev)
qed

lemma slice_to_sorted: "sorted_wrt R xs \<Longrightarrow> sorted_wrt R (slice_to n xs)"
  by (simp add: slice_to_def sorted_wrt_take)

lemma get_frequently_missed_descending:
  "descending (get_frequently_missed topic min_attempts limit data)"
  by (simp add: descending_def get_frequently_missed_def Let_def slice_to_sorted
      sort_reverse_descending)

lemma get_frequently_missed_length:
  "0 \<le> limit \<Longrightarrow> int (length (get_frequently_missed topic min_attempts limit data)) \<le> limit"
  by (auto simp: get_frequently_missed_def Let_def slice_to_def)

lemma get_frequently_missed_error_rate:
  "r \<in> set (get_frequently_missed topic min_attempts limit data) \<Longrightarrow>
     m_error_rate r = of_int (m_incorrect r) / of_int (m_attempts r)"
  using get_frequently_missed_from_stats[of r topic min_attempts limit data]
  by (auto simp: item_of_def)



section \<open>Properties of the question aggregate\<close>

lemma py_round_of_int [simp]: "py_round (of_int z) = z"
  by (simp add: py_round_def)

lemma int_response_ms_JInt [simp]: "int_response_ms (map_option JInt m) = Inr m"
  by (cases m) (simp_all add: int_response_ms_def)



lemma times_asked_step [simp]:
  "q_times_asked (update_question ts topic ans correct m q) = q_times_asked q + 1"
  by (simp add: update_question_def Let_def split: option.splits)

lemma avg_step_none [simp]:
  "q_avg_response_ms (update_question ts topic ans correct None q) = q_avg_response_ms q"
  by (simp add: update_question_def Let_def)














end
